theory Spec2Isabelle
  imports Main "HOL-Library.Word"
begin

unbundle bit_operations_syntax

section \<open>The digest: hashlib's SHA-256 object\<close>

text \<open>
  \<^verbatim>\<open>calculate_file_hash\<close> feeds a file to \<^verbatim>\<open>hashlib.sha256()\<close> in blocks of 4096
  bytes and returns \<^verbatim>\<open>hexdigest()\<close>.  The hash object is modelled as the streaming
  SHA-256 of FIPS 180-4: eight 32-bit chaining words, the bytes not yet filling a 64-byte
  block, and the number of bytes seen so far.  \<^verbatim>\<open>update\<close> absorbs every complete block,
  \<^verbatim>\<open>hexdigest\<close> pads what is pending and prints the chaining words in lower-case hex.
\<close>

type_synonym byte = "8 word"
type_synonym u32 = "32 word"
type_synonym hwords = "u32 \<times> u32 \<times> u32 \<times> u32 \<times> u32 \<times> u32 \<times> u32 \<times> u32"

definition Ch :: "u32 \<Rightarrow> u32 \<Rightarrow> u32 \<Rightarrow> u32" where
  "Ch x y z = (x AND y) XOR (NOT x AND z)"

definition Maj :: "u32 \<Rightarrow> u32 \<Rightarrow> u32 \<Rightarrow> u32" where
  "Maj x y z = (x AND y) XOR (x AND z) XOR (y AND z)"

definition bsig0 :: "u32 \<Rightarrow> u32" where
  "bsig0 x = word_rotr 2 x XOR word_rotr 13 x XOR word_rotr 22 x"

definition bsig1 :: "u32 \<Rightarrow> u32" where
  "bsig1 x = word_rotr 6 x XOR word_rotr 11 x XOR word_rotr 25 x"

definition ssig0 :: "u32 \<Rightarrow> u32" where
  "ssig0 x = word_rotr 7 x XOR word_rotr 18 x XOR drop_bit 3 x"

definition ssig1 :: "u32 \<Rightarrow> u32" where
  "ssig1 x = word_rotr 17 x XOR word_rotr 19 x XOR drop_bit 10 x"

definition K256 :: "u32 list" where
  "K256 = [
    0x428A2F98, 0x71374491, 0xB5C0FBCF, 0xE9B5DBA5, 0x3956C25B, 0x59F111F1, 0x923F82A4, 0xAB1C5ED5,
    0xD807AA98, 0x12835B01, 0x243185BE, 0x550C7DC3, 0x72BE5D74, 0x80DEB1FE, 0x9BDC06A7, 0xC19BF174,
    0xE49B69C1, 0xEFBE4786, 0x0FC19DC6, 0x240CA1CC, 0x2DE92C6F, 0x4A7484AA, 0x5CB0A9DC, 0x76F988DA,
    0x983E5152, 0xA831C66D, 0xB00327C8, 0xBF597FC7, 0xC6E00BF3, 0xD5A79147, 0x06CA6351, 0x14292967,
    0x27B70A85, 0x2E1B2138, 0x4D2C6DFC, 0x53380D13, 0x650A7354, 0x766A0ABB, 0x81C2C92E, 0x92722C85,
    0xA2BFE8A1, 0xA81A664B, 0xC24B8B70, 0xC76C51A3, 0xD192E819, 0xD6990624, 0xF40E3585, 0x106AA070,
    0x19A4C116, 0x1E376C08, 0x2748774C, 0x34B0BCB5, 0x391C0CB3, 0x4ED8AA4A, 0x5B9CCA4F, 0x682E6FF3,
    0x748F82EE, 0x78A5636F, 0x84C87814, 0x8CC70208, 0x90BEFFFA, 0xA4506CEB, 0xBEF9A3F7, 0xC67178F2]"

definition H256 :: hwords where
  "H256 = (0x6A09E667, 0xBB67AE85, 0x3C6EF372, 0xA54FF53A,
           0x510E527F, 0x9B05688C, 0x1F83D9AB, 0x5BE0CD19)"

definition be32 :: "byte \<Rightarrow> byte \<Rightarrow> byte \<Rightarrow> byte \<Rightarrow> u32" where
  "be32 a b c d = push_bit 24 (ucast a) OR push_bit 16 (ucast b) OR push_bit 8 (ucast c) OR ucast d"

fun block_words :: "byte list \<Rightarrow> u32 list" where
  "block_words (a # b # c # d # rest) = be32 a b c d # block_words rest"
| "block_words _ = []"

fun extend_schedule :: "nat \<Rightarrow> u32 list \<Rightarrow> u32 list" where
  "extend_schedule 0 w = w"
| "extend_schedule (Suc n) w =
     extend_schedule n
       (w @ [ssig1 (w ! (length w - 2)) + w ! (length w - 7)
             + ssig0 (w ! (length w - 15)) + w ! (length w - 16)])"

definition schedule :: "byte list \<Rightarrow> u32 list" where
  "schedule blk = extend_schedule 48 (block_words blk)"

definition round_step :: "u32 \<times> u32 \<Rightarrow> hwords \<Rightarrow> hwords" where
  "round_step kw hs =
     (case kw of (k, w) \<Rightarrow>
      case hs of (a, b, c, d, e, f, g, h) \<Rightarrow>
        (let t1 = h + bsig1 e + Ch e f g + k + w;
             t2 = bsig0 a + Maj a b c
         in (t1 + t2, a, b, c, d + t1, e, f, g)))"

definition add_hwords :: "hwords \<Rightarrow> hwords \<Rightarrow> hwords" where
  "add_hwords x y =
     (case x of (a, b, c, d, e, f, g, h) \<Rightarrow>
      case y of (a', b', c', d', e', f', g', h') \<Rightarrow>
        (a + a', b + b', c + c', d + d', e + e', f + f', g + g', h + h'))"

definition compress :: "hwords \<Rightarrow> byte list \<Rightarrow> hwords" where
  "compress hs blk = add_hwords hs (fold round_step (zip K256 (schedule blk)) hs)"

function absorb :: "hwords \<Rightarrow> byte list \<Rightarrow> hwords \<times> byte list" where
  "absorb hs d = (if length d < 64 then (hs, d)
                  else absorb (compress hs (take 64 d)) (drop 64 d))"
  by pat_completeness auto
termination
  by (relation "measure (\<lambda>(hs, d). length d)") auto

declare absorb.simps [simp del]

record sha256_state =
  hw :: hwords
  pending :: "byte list"
  total :: nat

definition sha256_new :: sha256_state where
  "sha256_new = \<lparr>hw = H256, pending = [], total = 0\<rparr>"

definition sha256_update :: "sha256_state \<Rightarrow> byte list \<Rightarrow> sha256_state" where
  "sha256_update st data =
     (case absorb (hw st) (pending st @ data) of
        (hs, rest) \<Rightarrow> \<lparr>hw = hs, pending = rest, total = total st + length data\<rparr>)"

definition be64 :: "64 word \<Rightarrow> byte list" where
  "be64 w = map (\<lambda>i. ucast (drop_bit (8 * i) w)) [7, 6, 5, 4, 3, 2, 1, 0]"

definition sha256_pad :: "nat \<Rightarrow> byte list" where
  "sha256_pad n = 0x80 # replicate ((119 - n mod 64) mod 64) 0 @ be64 (of_nat (8 * n))"

definition hex_digit :: "nat \<Rightarrow> char" where
  "hex_digit n = ''0123456789abcdef'' ! (n mod 16)"

definition hex32 :: "u32 \<Rightarrow> string" where
  "hex32 w = map (\<lambda>i. hex_digit (unat (drop_bit (4 * i) w AND 15))) [7, 6, 5, 4, 3, 2, 1, 0]"

definition hex_hwords :: "hwords \<Rightarrow> string" where
  "hex_hwords x =
     (case x of (a, b, c, d, e, f, g, h) \<Rightarrow>
        hex32 a @ hex32 b @ hex32 c @ hex32 d @ hex32 e @ hex32 f @ hex32 g @ hex32 h)"

definition sha256_hexdigest :: "sha256_state \<Rightarrow> string" where
  "sha256_hexdigest st =
     hex_hwords (fst (absorb (hw st) (pending st @ sha256_pad (total st))))"


definition sha256_hex :: "byte list \<Rightarrow> string" where
  \<comment> \<open>\<^verbatim>\<open>hashlib.sha256(data).hexdigest()\<close>: the digest of the whole content at once.\<close>
  "sha256_hex data = sha256_hexdigest (sha256_update sha256_new data)"

section \<open>Python values and library calls used by the script\<close>

type_synonym path = string
type_synonym bytes = "byte list"

text \<open>
  The exceptions the script can meet: \<^verbatim>\<open>hf_hub_download\<close> failing (repository, network
  or disk), and \<^verbatim>\<open>OSError\<close> from \<^verbatim>\<open>os.path.getsize\<close>, \<^verbatim>\<open>open\<close> or \<^verbatim>\<open>os.remove\<close> on a
  path that does not exist.
\<close>

datatype exn = HubError string | OSError path

text \<open>A finished child process: what \<^verbatim>\<open>subprocess\<close> reports back.\<close>

record proc =
  returncode :: int
  stdout :: string
  stderr :: string

text \<open>
  The world outside the interpreter: the local file system (a map from paths to
  contents) and everything else (the Modal volume, the dataset hub), of a type \<open>'x\<close> the
  script never looks into.
\<close>

type_synonym 'x world = "(path \<rightharpoonup> bytes) \<times> 'x"

text \<open>
  The trace of the calls that leave the interpreter, in program order.  It serves to state
  what was invoked, and in which order; the script's own \<^verbatim>\<open>print\<close> output is not modelled,
  but for the numbers of the final summary.
\<close>

datatype event =
    HubDownload string   \<comment> \<open>\<^verbatim>\<open>hf_hub_download(filename=...)\<close>\<close>
  | Preview path         \<comment> \<open>\<^verbatim>\<open>open(path, 'rb')\<close> in \<^verbatim>\<open>preview_binary_file\<close>\<close>
  | HashFile path        \<comment> \<open>\<^verbatim>\<open>open(path, "rb")\<close> in \<^verbatim>\<open>calculate_file_hash\<close>\<close>
  | Subprocess string    \<comment> \<open>a shell command run through \<^verbatim>\<open>subprocess\<close>\<close>
  | OsRemove path        \<comment> \<open>\<^verbatim>\<open>os.remove(path)\<close>\<close>
  | MkDtemp path         \<comment> \<open>entering \<^verbatim>\<open>tempfile.TemporaryDirectory()\<close>\<close>
  | RmTree path          \<comment> \<open>leaving it\<close>

type_synonym 'x state = "'x world \<times> event list"

text \<open>
  The external collaborators, as functions of the world: the hub client returns the local
  path of the fetched file or raises; the shell runs a command line to completion; the
  operating system picks the name of a fresh temporary directory.
\<close>

record 'x env =
  hf_hub_download :: "string \<Rightarrow> path \<Rightarrow> 'x world \<Rightarrow> (exn + path) \<times> 'x world"
  subprocess :: "string \<Rightarrow> 'x world \<Rightarrow> proc \<times> 'x world"
  mkdtemp :: "'x world \<Rightarrow> path \<times> 'x world"

definition truthy :: "string option \<Rightarrow> bool" where
  \<comment> \<open>Python's truth value of \<^verbatim>\<open>None\<close> or a \<^verbatim>\<open>str\<close>: \<^verbatim>\<open>None\<close> and \<^verbatim>\<open>""\<close> are false.\<close>
  "truthy r = (case r of None \<Rightarrow> False | Some out \<Rightarrow> out \<noteq> [])"

definition path_join :: "path \<Rightarrow> path \<Rightarrow> path" where
  \<comment> \<open>\<^verbatim>\<open>os.path.join(a, b)\<close> of posixpath.\<close>
  "path_join a b =
     (if take 1 b = ''/'' then b
      else if a = [] \<or> last a = CHR ''/'' then a @ b
      else a @ ''/'' @ b)"

definition basename :: "path \<Rightarrow> path" where
  \<comment> \<open>\<^verbatim>\<open>os.path.basename(p)\<close>: what follows the last slash.\<close>
  "basename p = rev (takeWhile (\<lambda>c. c \<noteq> CHR ''/'') (rev p))"

definition digit_char :: "nat \<Rightarrow> char" where
  "digit_char d = ''0123456789'' ! (d mod 10)"

function decimal :: "nat \<Rightarrow> string" where
  "decimal n = (if n < 10 then [digit_char n] else decimal (n div 10) @ [digit_char (n mod 10)])"
  by pat_completeness auto
termination
  by (relation "measure id") auto

declare decimal.simps [simp del]

definition zfill :: "nat \<Rightarrow> string \<Rightarrow> string" where
  "zfill w s = replicate (w - length s) (CHR ''0'') @ s"

definition format_06d :: "int \<Rightarrow> string" where
  \<comment> \<open>Python's \<^verbatim>\<open>f"{i:06d}"\<close>: decimal, zero-filled after the sign to a width of six.\<close>
  "format_06d i =
     (if i < 0 then CHR ''-'' # zfill 5 (decimal (nat (- i))) else zfill 6 (decimal (nat i)))"

section \<open>modal\_dataloader.py\<close>

subsection \<open>run\_command\<close>

text \<open>
  The body of the \<^verbatim>\<open>try\<close>: both branches wait for the child and raise
  \<^verbatim>\<open>CalledProcessError\<close> on a non-zero return code (\<^verbatim>\<open>check=True\<close> without progress,
  the explicit test with it); \<open>Inl rc\<close> is that exception.
\<close>

definition run_command_body ::
  "'x env \<Rightarrow> string \<Rightarrow> string \<Rightarrow> bool \<Rightarrow> 'x state \<Rightarrow> (int + string) \<times> 'x state" where
  "run_command_body env cmd description show_progress s =
     (case s of (w, lg) \<Rightarrow>
        (case subprocess env cmd w of (p, w') \<Rightarrow>
           if show_progress then
             (if returncode p \<noteq> 0 then (Inl (returncode p), (w', lg @ [Subprocess cmd]))
              else (Inr (stdout p), (w', lg @ [Subprocess cmd])))
           else
             (if returncode p \<noteq> 0 then (Inl (returncode p), (w', lg @ [Subprocess cmd]))
              else (Inr (stdout p), (w', lg @ [Subprocess cmd])))))"

definition run_command ::
  "'x env \<Rightarrow> string \<Rightarrow> string \<Rightarrow> bool \<Rightarrow> 'x state \<Rightarrow> string option \<times> 'x state" where
  "run_command env cmd description show_progress s =
     (case run_command_body env cmd description show_progress s of
        (Inl rc, s') \<Rightarrow> (None, s')
      | (Inr out, s') \<Rightarrow> (Some out, s'))"

subsection \<open>calculate\_file\_hash\<close>

text \<open>
  \<^verbatim>\<open>iter(lambda: f.read(n), b"")\<close>: the blocks read until the first empty one.  A block
  size of 0 reads an empty block at once.
\<close>

function read_chunks :: "nat \<Rightarrow> bytes \<Rightarrow> bytes list" where
  "read_chunks n data =
     (if n = 0 \<or> data = [] then [] else take n data # read_chunks n (drop n data))"
  by pat_completeness auto
termination
  by (relation "measure (\<lambda>(n, data). length data)") auto

declare read_chunks.simps [simp del]

definition hash_stream :: "nat \<Rightarrow> bytes \<Rightarrow> string" where
  "hash_stream n data =
     sha256_hexdigest (fold (\<lambda>chunk st. sha256_update st chunk) (read_chunks n data) sha256_new)"

text \<open>
  \<^verbatim>\<open>calculate_file_hash\<close> with the block size as a parameter; \<^verbatim>\<open>os.path.getsize\<close> raises
  before the file is opened when the path does not exist.
\<close>

definition calculate_file_hash_bs ::
  "nat \<Rightarrow> path \<Rightarrow> 'x state \<Rightarrow> (exn + string) \<times> 'x state" where
  "calculate_file_hash_bs n file_path s =
     (case s of (w, lg) \<Rightarrow>
        (case fst w file_path of
           None \<Rightarrow> (Inl (OSError file_path), s)
         | Some data \<Rightarrow> (Inr (hash_stream n data), (w, lg @ [HashFile file_path]))))"

definition calculate_file_hash :: "path \<Rightarrow> 'x state \<Rightarrow> (exn + string) \<times> 'x state" where
  "calculate_file_hash = calculate_file_hash_bs 4096"

subsection \<open>preview\_binary\_file and os.remove\<close>

text \<open>
  The preview only reads and prints, and its \<^verbatim>\<open>except Exception\<close> swallows a missing
  file: nothing of it reaches the caller but the fact that the file was opened.
\<close>

definition preview_binary_file :: "path \<Rightarrow> 'x state \<Rightarrow> 'x state" where
  "preview_binary_file file_path s =
     (case s of (w, lg) \<Rightarrow>
        (case fst w file_path of
           None \<Rightarrow> s
         | Some data \<Rightarrow> (w, lg @ [Preview file_path])))"

definition os_remove :: "path \<Rightarrow> 'x state \<Rightarrow> (exn + unit) \<times> 'x state" where
  "os_remove file_path s =
     (case s of (w, lg) \<Rightarrow>
        (case fst w file_path of
           None \<Rightarrow> (Inl (OSError file_path), s)
         | Some data \<Rightarrow>
             (Inr (), (((fst w)(file_path := None), snd w), lg @ [OsRemove file_path]))))"

subsection \<open>verify\_modal\_upload\<close>

definition verify_path_of :: "path \<Rightarrow> path \<Rightarrow> path" where
  "verify_path_of temp_dir remote_path = path_join temp_dir (''verify_'' @ basename remote_path)"

definition download_cmd :: "string \<Rightarrow> path \<Rightarrow> path \<Rightarrow> string" where
  "download_cmd volume_name remote_path verify_path =
     ''modal volume get '' @ volume_name @ '' '' @ remote_path @ '' '' @ verify_path"

text \<open>
  The body of the \<^verbatim>\<open>try\<close>.  \<open>local_hash\<close> is \<^verbatim>\<open>None\<close> or a string, as the caller holds
  it; the hash of the copy is taken and the copy removed before the two are compared.
\<close>

definition verify_modal_upload_body ::
  "'x env \<Rightarrow> string \<Rightarrow> path \<Rightarrow> string option \<Rightarrow> path \<Rightarrow> 'x state \<Rightarrow> (exn + bool) \<times> 'x state" where
  "verify_modal_upload_body env volume_name remote_path local_hash temp_dir s =
     (let verify_path = verify_path_of temp_dir remote_path in
      case run_command env (download_cmd volume_name remote_path verify_path)
             (''Downloading '' @ remote_path @ '' for verification'') False s of
        (r, s1) \<Rightarrow>
          if truthy r then
            (case calculate_file_hash verify_path s1 of
               (Inl e, s2) \<Rightarrow> (Inl e, s2)
             | (Inr modal_hash, s2) \<Rightarrow>
                 (case os_remove verify_path s2 of
                    (Inl e, s3) \<Rightarrow> (Inl e, s3)
                  | (Inr u, s3) \<Rightarrow>
                      if local_hash = Some modal_hash then (Inr True, s3) else (Inr False, s3)))
          else (Inr False, s1))"

definition verify_modal_upload ::
  "'x env \<Rightarrow> string \<Rightarrow> path \<Rightarrow> string option \<Rightarrow> path \<Rightarrow> 'x state \<Rightarrow> bool \<times> 'x state" where
  "verify_modal_upload env volume_name remote_path local_hash temp_dir s =
     (case verify_modal_upload_body env volume_name remote_path local_hash temp_dir s of
        (Inl e, s') \<Rightarrow> (False, s')
      | (Inr ok, s') \<Rightarrow> (ok, s'))"

subsection \<open>download\_and\_upload\_file\<close>

definition upload_cmd :: "string \<Rightarrow> path \<Rightarrow> string \<Rightarrow> string" where
  "upload_cmd volume_name local_path filename =
     ''modal volume put '' @ volume_name @ '' '' @ local_path @ '' /'' @ filename"

text \<open>What follows the upload command, once \<^verbatim>\<open>local_hash\<close> is known.\<close>

definition upload_and_verify ::
  "'x env \<Rightarrow> string \<Rightarrow> path \<Rightarrow> string \<Rightarrow> string option \<Rightarrow> path \<Rightarrow> bool \<Rightarrow> 'x state
     \<Rightarrow> (exn + bool) \<times> 'x state" where
  "upload_and_verify env volume_name local_path filename local_hash temp_dir skip_verification s =
     (case run_command env (upload_cmd volume_name local_path filename)
             (''Uploading '' @ filename @ '' to Modal volume'') True s of
        (r, s1) \<Rightarrow>
          if truthy r then
            (if skip_verification then
               (case os_remove local_path s1 of
                  (Inl e, s2) \<Rightarrow> (Inl e, s2)
                | (Inr u, s2) \<Rightarrow> (Inr True, s2))
             else
               (case verify_modal_upload env volume_name (''/'' @ filename) local_hash temp_dir s1 of
                  (ok, s2) \<Rightarrow>
                    if ok then
                      (case os_remove local_path s2 of
                         (Inl e, s3) \<Rightarrow> (Inl e, s3)
                       | (Inr u, s3) \<Rightarrow> (Inr True, s3))
                    else (Inr False, s2)))
          else (Inr False, s1))"

text \<open>The body of the \<^verbatim>\<open>try\<close> of \<^verbatim>\<open>download_and_upload_file\<close>.\<close>

definition download_and_upload_file_body ::
  "'x env \<Rightarrow> string \<Rightarrow> path \<Rightarrow> string \<Rightarrow> bool \<Rightarrow> 'x state \<Rightarrow> (exn + bool) \<times> 'x state" where
  "download_and_upload_file_body env filename temp_dir volume_name skip_verification s =
     (case s of (w, lg) \<Rightarrow>
        (case hf_hub_download env filename temp_dir w of
           (Inl e, w1) \<Rightarrow> (Inl e, (w1, lg @ [HubDownload filename]))
         | (Inr local_path, w1) \<Rightarrow>
             (let s2 = preview_binary_file local_path (w1, lg @ [HubDownload filename]) in
              if skip_verification then
                upload_and_verify env volume_name local_path filename None temp_dir
                  skip_verification s2
              else
                (case calculate_file_hash local_path s2 of
                   (Inl e, s3) \<Rightarrow> (Inl e, s3)
                 | (Inr local_hash, s3) \<Rightarrow>
                     upload_and_verify env volume_name local_path filename (Some local_hash)
                       temp_dir skip_verification s3))))"

definition download_and_upload_file ::
  "'x env \<Rightarrow> string \<Rightarrow> path \<Rightarrow> string \<Rightarrow> bool \<Rightarrow> 'x state \<Rightarrow> bool \<times> 'x state" where
  "download_and_upload_file env filename temp_dir volume_name skip_verification s =
     (case download_and_upload_file_body env filename temp_dir volume_name skip_verification s of
        (Inl e, s') \<Rightarrow> (False, s')
      | (Inr ok, s') \<Rightarrow> (ok, s'))"

subsection \<open>main\<close>

record args =
  skip_verification :: bool
  volume :: string
  chunks :: int

record run_result =
  exit_code :: int
  summary :: "(int \<times> int) option"   \<comment> \<open>the two numbers printed under \<^verbatim>\<open>=== Summary ===\<close>\<close>

definition val_filename :: string where
  "val_filename = ''finewebedu_val_000000.bin''"

definition train_filename :: "int \<Rightarrow> string" where
  "train_filename i = ''finewebedu_train_'' @ format_06d i @ ''.bin''"

text \<open>
  The \<^verbatim>\<open>for i in range(1, num_chunks + 1)\<close> loop over the list of its indices, with the
  two counters \<^verbatim>\<open>(successful_uploads, failed_uploads)\<close>.
\<close>

fun train_loop ::
  "'x env \<Rightarrow> path \<Rightarrow> string \<Rightarrow> bool \<Rightarrow> int list \<Rightarrow> int \<times> int \<Rightarrow> 'x state
     \<Rightarrow> (int \<times> int) \<times> 'x state" where
  "train_loop env temp_dir volume_name skip [] tally s = (tally, s)"
| "train_loop env temp_dir volume_name skip (i # rest) tally s =
     (case download_and_upload_file env (train_filename i) temp_dir volume_name skip s of
        (ok, s') \<Rightarrow>
          train_loop env temp_dir volume_name skip rest
            (if ok then (fst tally + 1, snd tally) else (fst tally, snd tally + 1)) s')"

definition rmtree :: "path \<Rightarrow> 'x state \<Rightarrow> 'x state" where
  \<comment> \<open>The temporary directory's cleanup: every file under it goes.\<close>
  "rmtree d s =
     (case s of (w, lg) \<Rightarrow>
        ((\<lambda>p. if take (length d + 1) p = d @ ''/'' then None else fst w p, snd w),
         lg @ [RmTree d]))"

definition enter_tempdir :: "'x env \<Rightarrow> 'x state \<Rightarrow> path \<times> 'x state" where
  "enter_tempdir env s =
     (case s of (w, lg) \<Rightarrow>
        (case mkdtemp env w of (d, w') \<Rightarrow> (d, (w', lg @ [MkDtemp d]))))"

text \<open>
  \<^verbatim>\<open>main\<close> after argument parsing.  \<^verbatim>\<open>sys.exit(1)\<close> inside the \<^verbatim>\<open>with\<close> block unwinds
  through the temporary directory's cleanup; falling off the end is exit code 0.
\<close>

definition main :: "'x env \<Rightarrow> args \<Rightarrow> 'x state \<Rightarrow> run_result \<times> 'x state" where
  "main env a s =
     (case run_command env ''modal --version'' ''Checking Modal CLI'' False s of
        (r, s1) \<Rightarrow>
          if truthy r then
            (case enter_tempdir env s1 of
               (temp_dir, s2) \<Rightarrow>
                 (case download_and_upload_file env val_filename temp_dir (volume a)
                         (skip_verification a) s2 of
                    (ok, s3) \<Rightarrow>
                      if ok then
                        (case train_loop env temp_dir (volume a) (skip_verification a)
                                [1 .. chunks a] (0, 0) s3 of
                           ((successful_uploads, failed_uploads), s4) \<Rightarrow>
                             (\<lparr>exit_code = (if failed_uploads > 0 then 1 else 0),
                               summary = Some (successful_uploads + 1, failed_uploads)\<rparr>,
                              rmtree temp_dir s4))
                      else (\<lparr>exit_code = 1, summary = None\<rparr>, rmtree temp_dir s3)))
          else (\<lparr>exit_code = 1, summary = None\<rparr>, s1))"

section \<open>Observations on a run\<close>

text \<open>The outcomes of a sequence of jobs run one after the other.\<close>

fun job_results ::
  "'x env \<Rightarrow> path \<Rightarrow> string \<Rightarrow> bool \<Rightarrow> string list \<Rightarrow> 'x state \<Rightarrow> bool list" where
  "job_results env temp_dir volume_name skip [] s = []"
| "job_results env temp_dir volume_name skip (f # fs) s =
     (case download_and_upload_file env f temp_dir volume_name skip s of
        (ok, s') \<Rightarrow> ok # job_results env temp_dir volume_name skip fs s')"

fun fetched :: "event list \<Rightarrow> string list" where
  "fetched [] = []"
| "fetched (HubDownload f # evs) = f # fetched evs"
| "fetched (ev # evs) = fetched evs"

definition is_get :: "string \<Rightarrow> bool" where
  "is_get cmd = (take 17 cmd = ''modal volume get '')"

fun get_commands :: "event list \<Rightarrow> string list" where
  "get_commands [] = []"
| "get_commands (Subprocess c # evs) = (if is_get c then c # get_commands evs else get_commands evs)"
| "get_commands (ev # evs) = get_commands evs"

fun removals :: "event list \<Rightarrow> path list" where
  "removals [] = []"
| "removals (OsRemove p # evs) = p # removals evs"
| "removals (ev # evs) = removals evs"

text \<open>
  Reading a string of decimal digits back as a number: the yardstick for the shard index
  inside a file name.
\<close>

definition digit_value :: "char \<Rightarrow> nat" where
  "digit_value c = of_char c - 48"

definition dec_value :: "string \<Rightarrow> nat" where
  "dec_value s = foldl (\<lambda>a c. 10 * a + digit_value c) 0 s"


section \<open>A test double of the collaborators\<close>

text \<open>
  A stand-in for the hub and for the \<^verbatim>\<open>modal\<close> command line, to run the model on concrete
  inputs: the external state is the content of the Modal volume.  The hub serves
  \<open>hub_data\<close>; \<^verbatim>\<open>modal volume put\<close> copies a local file into the volume and
  \<^verbatim>\<open>modal volume get\<close> copies it back, passed through \<open>get_garble\<close>; each reports the
  process result configured for it.
\<close>

fun split_words :: "string \<Rightarrow> string list" where
  "split_words [] = [[]]"
| "split_words (c # cs) =
     (if c = CHR '' '' then [] # split_words cs
      else (case split_words cs of [] \<Rightarrow> [[c]] | w # ws \<Rightarrow> (c # w) # ws))"

record stub =
  hub_data :: "string \<Rightarrow> bytes option"
  version_proc :: proc
  put_proc :: proc
  get_proc :: proc
  get_garble :: "bytes \<Rightarrow> bytes"

type_synonym volume_content = "path \<rightharpoonup> bytes"

definition stub_hub ::
  "stub \<Rightarrow> string \<Rightarrow> path \<Rightarrow> volume_content world \<Rightarrow> (exn + path) \<times> volume_content world" where
  "stub_hub c filename local_dir w =
     (case hub_data c filename of
        None \<Rightarrow> (Inl (HubError filename), w)
      | Some d \<Rightarrow>
          (Inr (path_join local_dir filename),
           ((fst w)(path_join local_dir filename \<mapsto> d), snd w)))"

definition command_not_found :: proc where
  "command_not_found = \<lparr>returncode = 127, stdout = [], stderr = ''command not found''\<rparr>"

definition no_such_file :: proc where
  "no_such_file = \<lparr>returncode = 1, stdout = [], stderr = ''no such file''\<rparr>"

definition stub_shell :: "stub \<Rightarrow> string \<Rightarrow> volume_content world \<Rightarrow> proc \<times> volume_content world" where
  "stub_shell c cmd w =
     (let ws = split_words cmd in
      if ws = [''modal'', ''--version''] then (version_proc c, w)
      else if length ws = 6 \<and> take 3 ws = [''modal'', ''volume'', ''put''] then
        (if returncode (put_proc c) = 0 then
           (case fst w (ws ! 4) of
              None \<Rightarrow> (no_such_file, w)
            | Some d \<Rightarrow> (put_proc c, (fst w, (snd w)(ws ! 5 \<mapsto> d))))
         else (put_proc c, w))
      else if length ws = 6 \<and> take 3 ws = [''modal'', ''volume'', ''get''] then
        (if returncode (get_proc c) = 0 then
           (case snd w (ws ! 4) of
              None \<Rightarrow> (no_such_file, w)
            | Some d \<Rightarrow> (get_proc c, ((fst w)(ws ! 5 \<mapsto> get_garble c d), snd w)))
         else (get_proc c, w))
      else (command_not_found, w))"

definition stub_env :: "stub \<Rightarrow> volume_content env" where
  "stub_env c =
     \<lparr>hf_hub_download = stub_hub c, subprocess = stub_shell c,
      mkdtemp = (\<lambda>w. (''/tmp/tmpq1'', w))\<rparr>"

definition done_proc :: "string \<Rightarrow> proc" where
  "done_proc out = \<lparr>returncode = 0, stdout = out, stderr = []\<rparr>"

definition failed_proc :: proc where
  "failed_proc = \<lparr>returncode = 1, stdout = [], stderr = ''error''\<rparr>"

text \<open>Everything works, and every shard is the one byte \<open>0x2a\<close>.\<close>

definition good_stub :: stub where
  "good_stub =
     \<lparr>hub_data = (\<lambda>f. Some [0x2a]), version_proc = done_proc ''modal client version 1.0'',
      put_proc = done_proc ''ok'', get_proc = done_proc ''ok'', get_garble = (\<lambda>d. d)\<rparr>"

definition start :: "volume_content state" where
  "start = ((Map.empty, Map.empty), [])"

text \<open>The scenarios the model is run on.\<close>

definition put_fails_stub :: stub where
  "put_fails_stub = good_stub\<lparr>put_proc := failed_proc\<rparr>"

definition put_silent_stub :: stub where
  \<comment> \<open>the upload works, exits with code 0 and prints nothing\<close>
  "put_silent_stub = good_stub\<lparr>put_proc := done_proc []\<rparr>"

definition get_silent_stub :: stub where
  "get_silent_stub = good_stub\<lparr>get_proc := done_proc []\<rparr>"

definition version_silent_stub :: stub where
  "version_silent_stub = good_stub\<lparr>version_proc := done_proc []\<rparr>"

definition garbling_stub :: stub where
  \<comment> \<open>the volume hands back one byte more than was stored\<close>
  "garbling_stub = good_stub\<lparr>get_garble := (\<lambda>d. 0 # d)\<rparr>"

definition hub_gap_stub :: stub where
  \<comment> \<open>the hub lacks the first training shard\<close>
  "hub_gap_stub =
     good_stub\<lparr>hub_data :=
       (\<lambda>f. if f = ''finewebedu_train_000001.bin'' then None else Some [0x2a])\<rparr>"

definition two_chunks :: args where
  "two_chunks = \<lparr>skip_verification = False, volume = ''fineweb-volume'', chunks = 2\<rparr>"


section \<open>Streaming and whole-content hashing agree\<close>


lemma absorb_append:
  "absorb hs (d @ e) = (case absorb hs d of (h1, r) \<Rightarrow> absorb h1 (r @ e))"
proof (induction hs d rule: absorb.induct)
  case (1 hs d)
  show ?case
  proof (cases "length d < 64")
    case True
    then show ?thesis by (simp add: absorb.simps [of hs d])
  next
    case False
    then have "absorb hs (d @ e) = absorb (compress hs (take 64 d)) (drop 64 d @ e)"
      by (subst absorb.simps) simp
    also have "\<dots> = (case absorb (compress hs (take 64 d)) (drop 64 d) of
                        (h1, r) \<Rightarrow> absorb h1 (r @ e))"
      using False by (rule "1.IH")
    also have "absorb (compress hs (take 64 d)) (drop 64 d) = absorb hs d"
      using False by (simp add: absorb.simps [of hs d])
    finally show ?thesis .
  qed
qed

lemma sha256_update_append:
  "sha256_update (sha256_update st a) b = sha256_update st (a @ b)"
proof -
  obtain h1 r where A: "absorb (hw st) (pending st @ a) = (h1, r)"
    by (meson surj_pair)
  obtain h2 r2 where B: "absorb h1 (r @ b) = (h2, r2)"
    by (meson surj_pair)
  have C: "absorb (hw st) (pending st @ a @ b) = (h2, r2)"
    using absorb_append [of "hw st" "pending st @ a" b] by (simp only: A B append_assoc prod.case)
  have "sha256_update st a = \<lparr>hw = h1, pending = r, total = total st + length a\<rparr>"
    by (simp only: sha256_update_def A prod.case)
  then have "sha256_update (sha256_update st a) b
             = \<lparr>hw = h2, pending = r2, total = total st + length a + length b\<rparr>"
    by (simp add: sha256_update_def B)
  moreover have "sha256_update st (a @ b)
             = \<lparr>hw = h2, pending = r2, total = total st + length (a @ b)\<rparr>"
    by (simp only: sha256_update_def C prod.case)
  ultimately show ?thesis by (simp add: add.assoc)
qed

lemma fold_sha256_update:
  "fold (\<lambda>chunk st. sha256_update st chunk) cs (sha256_update st a)
     = sha256_update st (a @ concat cs)"
  by (induction cs arbitrary: a) (simp_all add: sha256_update_append)

lemma sha256_update_new_Nil: "sha256_update sha256_new [] = sha256_new"
  by (simp add: sha256_update_def sha256_new_def absorb.simps [of _ "[]"])

lemma concat_read_chunks: "0 < n \<Longrightarrow> concat (read_chunks n data) = data"
proof (induction n data rule: read_chunks.induct)
  case (1 n data)
  then show ?case by (subst read_chunks.simps) auto
qed

lemma hash_stream_whole: "0 < n \<Longrightarrow> hash_stream n data = sha256_hex data"
proof -
  assume n: "0 < n"
  have "fold (\<lambda>chunk st. sha256_update st chunk) (read_chunks n data) sha256_new
        = fold (\<lambda>chunk st. sha256_update st chunk) (read_chunks n data)
            (sha256_update sha256_new [])"
    by (simp only: sha256_update_new_Nil)
  also have "\<dots> = sha256_update sha256_new ([] @ concat (read_chunks n data))"
    by (rule fold_sha256_update)
  finally show ?thesis
    using n by (simp add: hash_stream_def sha256_hex_def concat_read_chunks)
qed

lemma hex_digit_in: "hex_digit n \<in> set ''0123456789abcdef''"
  unfolding hex_digit_def by (rule nth_mem) simp

lemma length_hex32: "length (hex32 w) = 8"
  by (simp add: hex32_def)

lemma set_hex32: "set (hex32 w) \<subseteq> set ''0123456789abcdef''"
proof
  fix c assume "c \<in> set (hex32 w)"
  then obtain n where "c = hex_digit n"
    unfolding hex32_def by auto
  then show "c \<in> set ''0123456789abcdef''"
    by (simp only: hex_digit_in)
qed

lemma hwords_exhaust:
  obtains a b c d e f g h where "x = (a, b, c, d, e, f, g, h)"
proof -
  obtain a y1 where "x = (a, y1)" by (cases x)
  moreover obtain b y2 where "y1 = (b, y2)" by (cases y1)
  moreover obtain c y3 where "y2 = (c, y3)" by (cases y2)
  moreover obtain d y4 where "y3 = (d, y4)" by (cases y3)
  moreover obtain e y5 where "y4 = (e, y5)" by (cases y4)
  moreover obtain f y6 where "y5 = (f, y6)" by (cases y5)
  moreover obtain g h where "y6 = (g, h)" by (cases y6)
  ultimately have "x = (a, b, c, d, e, f, g, h)" by simp
  then show ?thesis by (rule that)
qed

lemma length_hex_hwords: "length (hex_hwords x) = 64"
proof -
  obtain a b c d e f g h where "x = (a, b, c, d, e, f, g, h)"
    by (rule hwords_exhaust)
  then show ?thesis by (simp add: hex_hwords_def length_hex32)
qed

lemma set_hex_hwords: "set (hex_hwords x) \<subseteq> set ''0123456789abcdef''"
proof -
  obtain a b c d e f g h where x: "x = (a, b, c, d, e, f, g, h)"
    by (rule hwords_exhaust)
  have "set (hex_hwords x) = set (hex32 a) \<union> set (hex32 b) \<union> set (hex32 c) \<union> set (hex32 d)
          \<union> set (hex32 e) \<union> set (hex32 f) \<union> set (hex32 g) \<union> set (hex32 h)"
    by (simp add: x hex_hwords_def Un_assoc)
  then show ?thesis
    by (simp only: Un_subset_iff set_hex32 simp_thms)
qed

lemma length_sha256_hexdigest: "length (sha256_hexdigest st) = 64"
  by (simp add: sha256_hexdigest_def length_hex_hwords)

lemma set_sha256_hexdigest: "set (sha256_hexdigest st) \<subseteq> set ''0123456789abcdef''"
  unfolding sha256_hexdigest_def by (rule set_hex_hwords)


lemma calculate_file_hash_bs_Some:
  "fst w p = Some data \<Longrightarrow> 0 < n \<Longrightarrow>
   calculate_file_hash_bs n p (w, lg) = (Inr (sha256_hex data), (w, lg @ [HashFile p]))"
  by (simp add: calculate_file_hash_bs_def hash_stream_whole)

lemma calculate_file_hash_Some:
  "fst w p = Some data \<Longrightarrow>
   calculate_file_hash p (w, lg) = (Inr (sha256_hex data), (w, lg @ [HashFile p]))"
  by (simp add: calculate_file_hash_def calculate_file_hash_bs_Some)

lemma calculate_file_hash_None:
  "fst w p = None \<Longrightarrow> calculate_file_hash p (w, lg) = (Inl (OSError p), (w, lg))"
  by (simp add: calculate_file_hash_def calculate_file_hash_bs_def)

text \<open>
  C8.  The digest of a file is a function of its bytes alone: two files with the same
  content, hashed in blocks of any two positive sizes (the script's is 4096), in any two
  states of the world, give the same string, which is the SHA-256 of the whole content
  taken at once; it has 64 characters, all of them lower-case hexadecimal digits.
\<close>

theorem digest_deterministic_any_block_size:
  assumes "fst w1 p1 = Some data" and "fst w2 p2 = Some data"
    and "0 < n1" and "0 < n2"
  shows "fst (calculate_file_hash_bs n1 p1 (w1, lg1)) = Inr (sha256_hex data)
       \<and> fst (calculate_file_hash_bs n2 p2 (w2, lg2)) = fst (calculate_file_hash_bs n1 p1 (w1, lg1))
       \<and> fst (calculate_file_hash p1 (w1, lg1)) = Inr (sha256_hex data)
       \<and> hash_stream n1 data = sha256_hex data
       \<and> length (sha256_hex data) = 64
       \<and> set (sha256_hex data) \<subseteq> set ''0123456789abcdef''"
proof -
  have "length (sha256_hex data) = 64"
    unfolding sha256_hex_def by (rule length_sha256_hexdigest)
  moreover have "set (sha256_hex data) \<subseteq> set ''0123456789abcdef''"
    unfolding sha256_hex_def by (rule set_sha256_hexdigest)
  moreover have "hash_stream n1 data = sha256_hex data"
    using assms(3) by (rule hash_stream_whole)
  ultimately show ?thesis
    using assms
    by (simp only: calculate_file_hash_bs_Some calculate_file_hash_Some fst_conv simp_thms)
qed

theorem digest_deterministic_any_block_size_witness:
  "fst (calculate_file_hash_bs 3 ''a.bin'' (([''a.bin'' \<mapsto> [1, 2, 3, 4, 5, 6, 7]], ()), []))
     = Inr (sha256_hex [1, 2, 3, 4, 5, 6, 7])
   \<and> fst (calculate_file_hash_bs 4096 ''b.bin''
            (([''b.bin'' \<mapsto> [1, 2, 3, 4, 5, 6, 7]], True), [HashFile ''a.bin'']))
     = fst (calculate_file_hash_bs 3 ''a.bin'' (([''a.bin'' \<mapsto> [1, 2, 3, 4, 5, 6, 7]], ()), []))
   \<and> hash_stream 3 [1, 2, 3, 4, 5, 6, 7] = sha256_hex [1, 2, 3, 4, 5, 6, 7]
   \<and> length (sha256_hex [1, 2, 3, 4, 5, 6, 7]) = 64"
  using digest_deterministic_any_block_size
    [of "([''a.bin'' \<mapsto> [1, 2, 3, 4, 5, 6, 7]], ())" "''a.bin''" "[1, 2, 3, 4, 5, 6, 7]"
        "([''b.bin'' \<mapsto> [1, 2, 3, 4, 5, 6, 7]], True)" "''b.bin''" 3 4096 "[]"
        "[HashFile ''a.bin'']"]
  by simp


section \<open>What each function does, path by path\<close>

lemma run_command_eq:
  "subprocess env cmd w = (p, w') \<Longrightarrow>
   run_command env cmd d sp (w, lg)
     = (if returncode p = 0 then Some (stdout p) else None, (w', lg @ [Subprocess cmd]))"
  by (simp add: run_command_def run_command_body_def)

lemma truthy_run_command:
  "subprocess env cmd w = (p, w') \<Longrightarrow>
   truthy (fst (run_command env cmd d sp (w, lg))) = (returncode p = 0 \<and> stdout p \<noteq> [])"
  by (simp add: run_command_eq truthy_def)

lemma os_remove_Some:
  "fst w p = Some data \<Longrightarrow>
   os_remove p (w, lg) = (Inr (), (((fst w)(p := None), snd w), lg @ [OsRemove p]))"
  by (simp add: os_remove_def)

lemma os_remove_None:
  "fst w p = None \<Longrightarrow> os_remove p (w, lg) = (Inl (OSError p), (w, lg))"
  by (simp add: os_remove_def)

lemma preview_Some:
  "fst w p = Some data \<Longrightarrow> preview_binary_file p (w, lg) = (w, lg @ [Preview p])"
  by (simp add: preview_binary_file_def)

lemma preview_None:
  "fst w p = None \<Longrightarrow> preview_binary_file p (w, lg) = (w, lg)"
  by (simp add: preview_binary_file_def)

text \<open>verify\_modal\_upload: the download is reported failed.\<close>

lemma verify_get_falsy:
  assumes "subprocess env (download_cmd v rp (verify_path_of t rp)) w = (q, w1)"
    and "returncode q \<noteq> 0 \<or> stdout q = []"
  shows "verify_modal_upload env v rp lh t (w, lg)
         = (False, (w1, lg @ [Subprocess (download_cmd v rp (verify_path_of t rp))]))"
  using assms
  by (auto simp add: verify_modal_upload_def verify_modal_upload_body_def run_command_eq
      truthy_def Let_def)

text \<open>The download is reported done, but no file is at the verification path.\<close>

lemma verify_copy_missing:
  assumes "subprocess env (download_cmd v rp (verify_path_of t rp)) w = (q, w1)"
    and "returncode q = 0" and "stdout q \<noteq> []"
    and "fst w1 (verify_path_of t rp) = None"
  shows "verify_modal_upload env v rp lh t (w, lg)
         = (False, (w1, lg @ [Subprocess (download_cmd v rp (verify_path_of t rp))]))"
  using assms
  by (simp add: verify_modal_upload_def verify_modal_upload_body_def run_command_eq
      truthy_def Let_def calculate_file_hash_None)

text \<open>The copy is there: it is hashed, removed, and only then compared.\<close>

lemma verify_copy_present:
  assumes "subprocess env (download_cmd v rp (verify_path_of t rp)) w = (q, w1)"
    and "returncode q = 0" and "stdout q \<noteq> []"
    and "fst w1 (verify_path_of t rp) = Some copy"
  shows "verify_modal_upload env v rp lh t (w, lg)
         = (lh = Some (sha256_hex copy),
            (((fst w1)(verify_path_of t rp := None), snd w1),
             lg @ [Subprocess (download_cmd v rp (verify_path_of t rp)),
                   HashFile (verify_path_of t rp), OsRemove (verify_path_of t rp)]))"
  using assms
  by (simp add: verify_modal_upload_def verify_modal_upload_body_def run_command_eq
      truthy_def Let_def calculate_file_hash_Some os_remove_Some)

text \<open>upload\_and\_verify: the upload is reported failed.\<close>

lemma upload_put_falsy:
  assumes "subprocess env (upload_cmd v lp f) w = (p, w1)"
    and "returncode p \<noteq> 0 \<or> stdout p = []"
  shows "upload_and_verify env v lp f lh t skip (w, lg)
         = (Inr False, (w1, lg @ [Subprocess (upload_cmd v lp f)]))"
  using assms
  by (auto simp add: upload_and_verify_def run_command_eq truthy_def)

lemma upload_put_truthy:
  assumes "subprocess env (upload_cmd v lp f) w = (p, w1)"
    and "returncode p = 0" and "stdout p \<noteq> []"
  shows "upload_and_verify env v lp f lh t False (w, lg)
         = (case verify_modal_upload env v (''/'' @ f) lh t
                  (w1, lg @ [Subprocess (upload_cmd v lp f)]) of
              (ok, s2) \<Rightarrow>
                if ok then
                  (case os_remove lp s2 of
                     (Inl e, s3) \<Rightarrow> (Inl e, s3)
                   | (Inr u, s3) \<Rightarrow> (Inr True, s3))
                else (Inr False, s2))"
  using assms
  by (simp add: upload_and_verify_def run_command_eq truthy_def)

text \<open>download\_and\_upload\_file with verification, after a fetch that left a file.\<close>

lemma job_after_fetch:
  assumes "hf_hub_download env f t w = (Inr lp, w1)"
    and "fst w1 lp = Some content"
  shows "download_and_upload_file env f t v False (w, lg)
         = (case upload_and_verify env v lp f (Some (sha256_hex content)) t False
                  (w1, lg @ [HubDownload f, Preview lp, HashFile lp]) of
              (Inl e, s') \<Rightarrow> (False, s')
            | (Inr ok, s') \<Rightarrow> (ok, s'))"
  using assms
  by (simp add: download_and_upload_file_def download_and_upload_file_body_def
      preview_Some calculate_file_hash_Some)

lemma job_fetch_raises:
  assumes "hf_hub_download env f t w = (Inl e, w1)"
  shows "download_and_upload_file env f t v skip (w, lg) = (False, (w1, lg @ [HubDownload f]))"
  using assms
  by (simp add: download_and_upload_file_def download_and_upload_file_body_def)

lemma job_local_missing:
  assumes "hf_hub_download env f t w = (Inr lp, w1)"
    and "fst w1 lp = None"
  shows "download_and_upload_file env f t v False (w, lg) = (False, (w1, lg @ [HubDownload f]))"
  using assms
  by (simp add: download_and_upload_file_def download_and_upload_file_body_def
      preview_None calculate_file_hash_None)



section \<open>The trace of a job\<close>

lemma fetched_append: "fetched (xs @ ys) = fetched xs @ fetched ys"
  by (induction xs rule: fetched.induct) simp_all

lemma get_commands_append: "get_commands (xs @ ys) = get_commands xs @ get_commands ys"
  by (induction xs rule: get_commands.induct) simp_all

lemma removals_append: "removals (xs @ ys) = removals xs @ removals ys"
  by (induction xs rule: removals.induct) simp_all

lemma run_command_trace:
  "run_command env cmd d sp s = (r, s') \<Longrightarrow> snd s' = snd s @ [Subprocess cmd]"
  by (auto simp add: run_command_def run_command_body_def split: prod.splits if_splits)

lemma run_command_fetched:
  "run_command env cmd d sp s = (r, s') \<Longrightarrow> fetched (snd s') = fetched (snd s)"
  by (drule run_command_trace) (simp add: fetched_append)

lemma calculate_file_hash_fetched:
  "calculate_file_hash p s = (r, s') \<Longrightarrow> fetched (snd s') = fetched (snd s)"
  by (auto simp add: calculate_file_hash_def calculate_file_hash_bs_def fetched_append
      split: prod.splits option.splits)

lemma os_remove_fetched:
  "os_remove p s = (r, s') \<Longrightarrow> fetched (snd s') = fetched (snd s)"
  by (auto simp add: os_remove_def fetched_append split: prod.splits option.splits)

lemma preview_fetched:
  "fetched (snd (preview_binary_file p s)) = fetched (snd s)"
  by (auto simp add: preview_binary_file_def fetched_append split: prod.splits option.splits)

lemma verify_body_fetched:
  "verify_modal_upload_body env v rp lh t s = (r, s') \<Longrightarrow> fetched (snd s') = fetched (snd s)"
  by (auto simp add: verify_modal_upload_body_def Let_def
      split: prod.splits sum.splits if_splits
      dest!: run_command_fetched calculate_file_hash_fetched os_remove_fetched)

lemma verify_fetched:
  "verify_modal_upload env v rp lh t s = (r, s') \<Longrightarrow> fetched (snd s') = fetched (snd s)"
  by (auto simp add: verify_modal_upload_def split: prod.splits sum.splits
      dest!: verify_body_fetched)

lemma upload_and_verify_fetched:
  "upload_and_verify env v lp f lh t skip s = (r, s') \<Longrightarrow> fetched (snd s') = fetched (snd s)"
  by (auto simp add: upload_and_verify_def
      split: prod.splits sum.splits if_splits
      dest!: run_command_fetched verify_fetched os_remove_fetched)

lemma job_body_fetched:
  "download_and_upload_file_body env f t v skip s = (r, s') \<Longrightarrow>
   fetched (snd s') = fetched (snd s) @ [f]"
  by (auto simp add: download_and_upload_file_body_def Let_def fetched_append preview_fetched
      split: prod.splits sum.splits if_splits
      dest!: upload_and_verify_fetched calculate_file_hash_fetched)

lemma job_fetched:
  "download_and_upload_file env f t v skip s = (ok, s') \<Longrightarrow>
   fetched (snd s') = fetched (snd s) @ [f]"
  by (auto simp add: download_and_upload_file_def split: prod.splits sum.splits
      dest!: job_body_fetched)

lemma rmtree_fetched: "fetched (snd (rmtree d s)) = fetched (snd s)"
  by (simp add: rmtree_def fetched_append split: prod.splits)

lemma enter_tempdir_fetched:
  "enter_tempdir env s = (d, s') \<Longrightarrow> fetched (snd s') = fetched (snd s)"
  by (auto simp add: enter_tempdir_def fetched_append split: prod.splits)

section \<open>The loop over the training shards\<close>

lemma train_loop_fetched:
  "train_loop env t v skip is tally s = (tally', s') \<Longrightarrow>
   fetched (snd s') = fetched (snd s) @ map train_filename is"
proof (induction "is" arbitrary: tally s)
  case Nil
  then show ?case by simp
next
  case (Cons i rest)
  obtain ok s1 where job: "download_and_upload_file env (train_filename i) t v skip s = (ok, s1)"
    by (meson surj_pair)
  from Cons.prems job
  have "train_loop env t v skip rest
          (if ok then (fst tally + 1, snd tally) else (fst tally, snd tally + 1)) s1
        = (tally', s')"
    by simp
  then have "fetched (snd s') = fetched (snd s1) @ map train_filename rest"
    by (rule Cons.IH)
  with job_fetched [OF job] show ?case by simp
qed

lemma train_loop_tally:
  "fst (train_loop env t v skip is tally s)
   = (fst tally + int (length (filter id (job_results env t v skip (map train_filename is) s))),
      snd tally + int (length (filter Not (job_results env t v skip (map train_filename is) s))))"
proof (induction "is" arbitrary: tally s)
  case Nil
  then show ?case by simp
next
  case (Cons i rest)
  obtain ok s1 where job: "download_and_upload_file env (train_filename i) t v skip s = (ok, s1)"
    by (meson surj_pair)
  show ?case
    by (cases ok) (simp_all add: job Cons.IH)
qed

lemma length_job_results: "length (job_results env t v skip fs s) = length fs"
  by (induction fs arbitrary: s) (simp_all split: prod.splits)

lemma filter_Not_empty_iff: "(length (filter Not rs) = 0) = list_all id rs"
  by (induction rs) auto

lemma filter_id_all: "list_all id rs \<Longrightarrow> length (filter id rs) = length rs"
  by (induction rs) auto



section \<open>Shard names\<close>

lemma digit_value_digit_char: "d < 10 \<Longrightarrow> digit_value (digit_char d) = d"
proof -
  assume "d < 10"
  then have "d \<in> {0, 1, 2, 3, 4, 5, 6, 7, 8, 9}" by auto
  then show ?thesis
    by (auto simp add: digit_value_def digit_char_def)
qed

lemma digit_char_in: "digit_char d \<in> set ''0123456789''"
  unfolding digit_char_def by (rule nth_mem) simp

lemma dec_value_snoc: "dec_value (s @ [c]) = 10 * dec_value s + digit_value c"
  by (simp add: dec_value_def)

lemma dec_value_decimal: "dec_value (decimal n) = n"
proof (induction n rule: decimal.induct)
  case (1 n)
  show ?case
  proof (cases "n < 10")
    case True
    then show ?thesis
      by (simp add: decimal.simps [of n] dec_value_def digit_value_digit_char)
  next
    case False
    then have "dec_value (decimal n) = 10 * dec_value (decimal (n div 10)) + digit_value (digit_char (n mod 10))"
      by (simp add: decimal.simps [of n] dec_value_snoc)
    also have "\<dots> = 10 * (n div 10) + n mod 10"
      using False by (simp add: "1.IH" digit_value_digit_char)
    finally show ?thesis by simp
  qed
qed

lemma set_decimal: "set (decimal n) \<subseteq> set ''0123456789''"
proof (induction n rule: decimal.induct)
  case (1 n)
  show ?case
  proof (cases "n < 10")
    case True
    then show ?thesis
      using digit_char_in [of n] by (simp only: decimal.simps [of n] if_True list.set) simp
  next
    case False
    then have "set (decimal n) = set (decimal (n div 10)) \<union> {digit_char (n mod 10)}"
      by (simp add: decimal.simps [of n])
    with "1.IH" [OF False] digit_char_in [of "n mod 10"] show ?thesis
      by (simp only: Un_subset_iff) simp
  qed
qed

lemma dec_value_zeros: "dec_value (replicate k (CHR ''0'') @ s) = dec_value s"
proof (induction k)
  case 0
  then show ?case by simp
next
  case (Suc k)
  have "dec_value (CHR ''0'' # xs) = dec_value xs" for xs
    by (simp add: dec_value_def digit_value_def)
  with Suc show ?case by simp
qed

lemma length_decimal_le: "n < 10 ^ k \<Longrightarrow> 0 < k \<Longrightarrow> length (decimal n) \<le> k"
proof (induction n arbitrary: k rule: decimal.induct)
  case (1 n)
  show ?case
  proof (cases "n < 10")
    case True
    with "1.prems" show ?thesis by (simp add: decimal.simps [of n])
  next
    case False
    then obtain j where k: "k = Suc j"
      using "1.prems" by (cases k) auto
    with False "1.prems" have j: "0 < j"
      by (cases j) auto
    from "1.prems" k have "n div 10 < 10 ^ j"
      by (simp add: less_mult_imp_div_less mult.commute)
    with "1.IH" [OF False _ j] have "length (decimal (n div 10)) \<le> j" by simp
    with False k show ?thesis by (simp add: decimal.simps [of n])
  qed
qed

lemma format_06d_nonneg:
  "0 \<le> i \<Longrightarrow>
   format_06d i = replicate (6 - length (decimal (nat i))) (CHR ''0'') @ decimal (nat i)"
  by (simp add: format_06d_def zfill_def)

lemma format_06d_props:
  assumes "0 \<le> i"
  shows "dec_value (format_06d i) = nat i"
    and "set (format_06d i) \<subseteq> set ''0123456789''"
    and "6 \<le> length (format_06d i)"
    and "i < 1000000 \<Longrightarrow> length (format_06d i) = 6"
proof -
  show "dec_value (format_06d i) = nat i"
    using assms by (simp only: format_06d_nonneg dec_value_zeros dec_value_decimal)
  have "set (replicate k (CHR ''0'')) \<subseteq> set ''0123456789''" for k
    by (cases k) auto
  with set_decimal [of "nat i"] show "set (format_06d i) \<subseteq> set ''0123456789''"
    using assms by (simp only: format_06d_nonneg set_append Un_subset_iff)
  show "6 \<le> length (format_06d i)"
    using assms by (simp add: format_06d_nonneg)
  assume "i < 1000000"
  with assms have "nat i < 10 ^ 6" by simp
  then have "length (decimal (nat i)) \<le> 6"
    by (rule length_decimal_le) simp
  then show "length (format_06d i) = 6"
    using assms by (simp add: format_06d_nonneg)
qed

lemma train_not_val: "train_filename i \<noteq> val_filename"
  by (simp add: train_filename_def val_filename_def)

section \<open>main, branch by branch\<close>

lemma main_preflight_fails:
  assumes "run_command env ''modal --version'' ''Checking Modal CLI'' False s = (r, s1)"
    and "\<not> truthy r"
  shows "main env a s = (\<lparr>exit_code = 1, summary = None\<rparr>, s1)"
  using assms by (simp add: main_def)

lemma main_validation_fails:
  assumes "run_command env ''modal --version'' ''Checking Modal CLI'' False s = (r, s1)"
    and "truthy r"
    and "enter_tempdir env s1 = (t, s2)"
    and "download_and_upload_file env val_filename t (volume a) (skip_verification a) s2
         = (False, s3)"
  shows "main env a s = (\<lparr>exit_code = 1, summary = None\<rparr>, rmtree t s3)"
  using assms by (simp add: main_def)

lemma main_validation_ok:
  assumes "run_command env ''modal --version'' ''Checking Modal CLI'' False s = (r, s1)"
    and "truthy r"
    and "enter_tempdir env s1 = (t, s2)"
    and "download_and_upload_file env val_filename t (volume a) (skip_verification a) s2
         = (True, s3)"
    and "train_loop env t (volume a) (skip_verification a) [1 .. chunks a] (0, 0) s3
         = ((su, fa), s4)"
  shows "main env a s
         = (\<lparr>exit_code = (if fa > 0 then 1 else 0), summary = Some (su + 1, fa)\<rparr>, rmtree t s4)"
  using assms by (simp add: main_def)

lemma main_fetched_after_validation:
  assumes pre: "run_command env ''modal --version'' ''Checking Modal CLI'' False s = (r, s1)"
    and r: "truthy r"
    and tmp: "enter_tempdir env s1 = (t, s2)"
    and val: "download_and_upload_file env val_filename t (volume a) (skip_verification a) s2
         = (True, s3)"
  shows "fetched (snd (snd (main env a s)))
         = fetched (snd s) @ val_filename # map train_filename [1 .. chunks a]"
    and "summary (fst (main env a s))
         = Some (1 + int (length (filter id (job_results env t (volume a) (skip_verification a)
                                   (map train_filename [1 .. chunks a]) s3))),
                 int (length (filter Not (job_results env t (volume a) (skip_verification a)
                                   (map train_filename [1 .. chunks a]) s3))))"
    and "exit_code (fst (main env a s))
         = (if list_all id (job_results env t (volume a) (skip_verification a)
                             (map train_filename [1 .. chunks a]) s3) then 0 else 1)"
proof -
  obtain su fa s4 where
    loop: "train_loop env t (volume a) (skip_verification a) [1 .. chunks a] (0, 0) s3
           = ((su, fa), s4)"
    by (metis surj_pair)
  note m = main_validation_ok [OF pre r tmp val loop]
  have "fetched (snd s4) = fetched (snd s3) @ map train_filename [1 .. chunks a]"
    using loop by (rule train_loop_fetched)
  moreover have "fetched (snd s3) = fetched (snd s2) @ [val_filename]"
    using val by (rule job_fetched)
  moreover have "fetched (snd s2) = fetched (snd s1)"
    using tmp by (rule enter_tempdir_fetched)
  moreover have "fetched (snd s1) = fetched (snd s)"
    using pre by (rule run_command_fetched)
  ultimately show "fetched (snd (snd (main env a s)))
         = fetched (snd s) @ val_filename # map train_filename [1 .. chunks a]"
    by (simp add: m rmtree_fetched)
  have tally: "(su, fa) = (int (length (filter id (job_results env t (volume a)
                   (skip_verification a) (map train_filename [1 .. chunks a]) s3))),
               int (length (filter Not (job_results env t (volume a)
                   (skip_verification a) (map train_filename [1 .. chunks a]) s3))))"
    using train_loop_tally [of env t "volume a" "skip_verification a" "[1 .. chunks a]" "(0, 0)" s3]
    by (simp add: loop)
  then show "summary (fst (main env a s))
         = Some (1 + int (length (filter id (job_results env t (volume a) (skip_verification a)
                                   (map train_filename [1 .. chunks a]) s3))),
                 int (length (filter Not (job_results env t (volume a) (skip_verification a)
                                   (map train_filename [1 .. chunks a]) s3))))"
    by (simp add: m)
  from tally have "(fa > 0) = (\<not> list_all id (job_results env t (volume a)
                   (skip_verification a) (map train_filename [1 .. chunks a]) s3))"
    using filter_Not_empty_iff [of "job_results env t (volume a)
                   (skip_verification a) (map train_filename [1 .. chunks a]) s3"]
    by auto
  then show "exit_code (fst (main env a s))
         = (if list_all id (job_results env t (volume a) (skip_verification a)
                             (map train_filename [1 .. chunks a]) s3) then 0 else 1)"
    by (simp add: m)
qed


section \<open>Running the model on the test double\<close>

lemmas stub_defs = stub_env_def stub_hub_def stub_shell_def good_stub_def done_proc_def
  failed_proc_def command_not_found_def no_such_file_def start_def put_fails_stub_def
  put_silent_stub_def get_silent_stub_def version_silent_stub_def garbling_stub_def
  hub_gap_stub_def two_chunks_def

lemmas script_defs = main_def run_command_def run_command_body_def truthy_def
  enter_tempdir_def rmtree_def download_and_upload_file_def download_and_upload_file_body_def
  upload_and_verify_def verify_modal_upload_def verify_modal_upload_body_def
  preview_binary_file_def calculate_file_hash_def calculate_file_hash_bs_def hash_stream_whole
  os_remove_def upload_cmd_def download_cmd_def verify_path_of_def path_join_def basename_def
  val_filename_def Let_def

lemma upto_1_2: "[1..2::int] = [1, 2]"
  by (simp add: upto_rec1)

lemma train_filename_1: "train_filename 1 = ''finewebedu_train_000001.bin''"
  by code_simp

lemma train_filename_2: "train_filename 2 = ''finewebedu_train_000002.bin''"
  by code_simp

lemma stub_check:
  "run_command (stub_env c) ''modal --version'' ''Checking Modal CLI'' False (w, lg)
   = (if returncode (version_proc c) = 0 then Some (stdout (version_proc c)) else None,
      (w, lg @ [Subprocess ''modal --version'']))"
  by (simp add: stub_env_def stub_shell_def run_command_def run_command_body_def)

lemma stub_tempdir:
  "enter_tempdir (stub_env c) (w, lg) = (''/tmp/tmpq1'', (w, lg @ [MkDtemp ''/tmp/tmpq1'']))"
  by (simp add: stub_env_def enter_tempdir_def)

text \<open>The validation job where everything works.\<close>

lemma good_validation:
  "download_and_upload_file (stub_env good_stub) val_filename ''/tmp/tmpq1'' ''fineweb-volume''
     False ((Map.empty, Map.empty), [Subprocess ''modal --version'', MkDtemp ''/tmp/tmpq1''])
   = (True,
      ((Map.empty, [''/finewebedu_val_000000.bin'' \<mapsto> [0x2a]]),
       [Subprocess ''modal --version'', MkDtemp ''/tmp/tmpq1'',
        HubDownload ''finewebedu_val_000000.bin'',
        Preview ''/tmp/tmpq1/finewebedu_val_000000.bin'',
        HashFile ''/tmp/tmpq1/finewebedu_val_000000.bin'',
        Subprocess ''modal volume put fineweb-volume /tmp/tmpq1/finewebedu_val_000000.bin /finewebedu_val_000000.bin'',
        Subprocess ''modal volume get fineweb-volume /finewebedu_val_000000.bin /tmp/tmpq1/verify_finewebedu_val_000000.bin'',
        HashFile ''/tmp/tmpq1/verify_finewebedu_val_000000.bin'',
        OsRemove ''/tmp/tmpq1/verify_finewebedu_val_000000.bin'',
        OsRemove ''/tmp/tmpq1/finewebedu_val_000000.bin'']))"
  by (simp add: stub_defs script_defs)

lemma good_training:
  "job_results (stub_env good_stub) ''/tmp/tmpq1'' ''fineweb-volume'' False
     [''finewebedu_train_000001.bin'', ''finewebedu_train_000002.bin'']
     ((Map.empty, [''/finewebedu_val_000000.bin'' \<mapsto> [0x2a]]), lg)
   = [True, True]"
  by (simp add: stub_defs script_defs)

text \<open>The same with a hub that lacks the first training shard.\<close>

lemma hub_gap_validation:
  "download_and_upload_file (stub_env hub_gap_stub) val_filename ''/tmp/tmpq1'' ''fineweb-volume''
     False ((Map.empty, Map.empty), lg)
   = (True,
      ((Map.empty, [''/finewebedu_val_000000.bin'' \<mapsto> [0x2a]]),
       lg @
       [HubDownload ''finewebedu_val_000000.bin'',
        Preview ''/tmp/tmpq1/finewebedu_val_000000.bin'',
        HashFile ''/tmp/tmpq1/finewebedu_val_000000.bin'',
        Subprocess ''modal volume put fineweb-volume /tmp/tmpq1/finewebedu_val_000000.bin /finewebedu_val_000000.bin'',
        Subprocess ''modal volume get fineweb-volume /finewebedu_val_000000.bin /tmp/tmpq1/verify_finewebedu_val_000000.bin'',
        HashFile ''/tmp/tmpq1/verify_finewebedu_val_000000.bin'',
        OsRemove ''/tmp/tmpq1/verify_finewebedu_val_000000.bin'',
        OsRemove ''/tmp/tmpq1/finewebedu_val_000000.bin'']))"
  by (simp add: stub_defs script_defs)

lemma hub_gap_training:
  "job_results (stub_env hub_gap_stub) ''/tmp/tmpq1'' ''fineweb-volume'' False
     [''finewebedu_train_000001.bin'', ''finewebedu_train_000002.bin'']
     ((Map.empty, [''/finewebedu_val_000000.bin'' \<mapsto> [0x2a]]), lg)
   = [False, True]"
  by (simp add: stub_defs script_defs)

text \<open>The validation job when the upload command exits with code 1.\<close>

lemma put_fails_validation:
  "download_and_upload_file (stub_env put_fails_stub) val_filename ''/tmp/tmpq1''
     ''fineweb-volume'' False ((Map.empty, Map.empty), lg)
   = (False,
      (([''/tmp/tmpq1/finewebedu_val_000000.bin'' \<mapsto> [0x2a]], Map.empty),
       lg @
       [HubDownload ''finewebedu_val_000000.bin'',
        Preview ''/tmp/tmpq1/finewebedu_val_000000.bin'',
        HashFile ''/tmp/tmpq1/finewebedu_val_000000.bin'',
        Subprocess ''modal volume put fineweb-volume /tmp/tmpq1/finewebedu_val_000000.bin /finewebedu_val_000000.bin'']))"
  by (simp add: stub_defs script_defs)

end
